theory Spec2Isabelle
  imports Main "HOL-Library.Product_Lexorder"
begin

section \<open>Time\<close>

text \<open>
  A Python \<open>datetime\<close> is an instant at microsecond resolution, a \<open>timedelta\<close> a signed
  number of microseconds. Both are unbounded integers here: an instant is the number of
  microseconds since the epoch.
\<close>

type_synonym datetime = int
type_synonym timedelta = int

text \<open>\<open>timezone.timedelta(hours=h)\<close>.\<close>

definition timedelta_hours :: "int \<Rightarrow> timedelta" where
  "timedelta_hours h = h * 3600 * 1000000"

text \<open>
  \<open>int(delta.total_seconds())\<close>. \<open>total_seconds\<close> divides the microseconds of the
  difference by \<open>10^6\<close> and gives the quotient as a float: the double nearest to the exact
  quotient, ties to even. \<open>int\<close> then drops the fraction of that double, towards zero.

  The double nearest to a positive quotient whose whole part \<open>s\<close> has \<open>p\<close> binary digits
  is a multiple of \<open>2^(p - 53)\<close>: the quotient is scaled by \<open>2^(53 - p)\<close>, rounded to the
  nearest integer and scaled back. A quotient below 1 gives a double below 1. Rounding is
  symmetric, so a negative difference gives the negated result of its absolute value.
\<close>

definition round_half_even :: "int \<Rightarrow> int \<Rightarrow> int" where
  "round_half_even n m =
     (let q = n div m; r = n mod m
      in if 2 * r < m then q
         else if m < 2 * r then q + 1
         else if even q then q else q + 1)"

function bit_length :: "int \<Rightarrow> nat" where
  "bit_length n = (if n \<le> 0 then 0 else Suc (bit_length (n div 2)))"
  by pat_completeness auto
termination
  by (relation "measure nat") auto

declare bit_length.simps [simp del]

definition float_seconds :: "timedelta \<Rightarrow> int" where
  "float_seconds d =
     (let s = d div 1000000
      in if s = 0 then 0
         else (let p = bit_length s
               in if p \<le> 53
                  then round_half_even (d * 2 ^ (53 - p)) 1000000 div 2 ^ (53 - p)
                  else round_half_even d (1000000 * 2 ^ (p - 53)) * 2 ^ (p - 53)))"

definition int_total_seconds :: "timedelta \<Rightarrow> int" where
  "int_total_seconds d = (if 0 \<le> d then float_seconds d else - float_seconds (- d))"

section \<open>accounts/models.py: the agent\<close>

text \<open>
  The \<open>User\<close> model. The field \<open>id\<close> is \<open>user_id\<close> here, \<open>status\<close> is \<open>user_status\<close>
  and \<open>updated_at\<close> is \<open>user_updated_at\<close> (the session has fields of the same names).
  A \<open>CharField\<close> with choices holds any string: the choices are checked by form
  validation only, so the status is a string, as the code compares it.
\<close>

record User =
  user_id :: string
  email :: string
  role :: string
  user_status :: string
  is_available :: bool
  current_chats_count :: int
  max_concurrent_chats :: int
  total_chats_handled :: int
  total_ratings :: int
  last_activity :: datetime
  user_updated_at :: datetime

definition can_accept_chat :: "User \<Rightarrow> bool" where
  "can_accept_chat u =
     (is_available u \<and> user_status u = ''online'' \<and>
      current_chats_count u < max_concurrent_chats u)"

text \<open>
  \<open>save(update_fields=[...])\<close> writes the named fields of the object as they stand; it
  does not touch the others (the \<open>auto_now\<close> timestamps are refreshed only when they are
  among the fields saved). The object after the call is the value returned here. An
  agent is an account that exists in the table, so this save is an update.
\<close>

definition increment_chat_count :: "User \<Rightarrow> User" where
  "increment_chat_count u =
     u\<lparr>current_chats_count := current_chats_count u + 1,
       total_chats_handled := total_chats_handled u + 1\<rparr>"

definition decrement_chat_count :: "User \<Rightarrow> User" where
  "decrement_chat_count u =
     (if current_chats_count u > 0
      then u\<lparr>current_chats_count := current_chats_count u - 1\<rparr>
      else u)"

text \<open>The capacity invariant of the data model: \<open>0 \<le> current \<le> max\<close>.\<close>

definition capacity_ok :: "User \<Rightarrow> bool" where
  "capacity_ok u =
     (0 \<le> current_chats_count u \<and> current_chats_count u \<le> max_concurrent_chats u)"

text \<open>A sequence of calls of the two counter methods on one agent, in order.\<close>

datatype registry_op = Increment | Decrement

fun apply_registry_op :: "User \<Rightarrow> registry_op \<Rightarrow> User" where
  "apply_registry_op u Increment = increment_chat_count u"
| "apply_registry_op u Decrement = decrement_chat_count u"

fun run_registry_ops :: "User \<Rightarrow> registry_op list \<Rightarrow> User" where
  "run_registry_ops u [] = u"
| "run_registry_ops u (x # xs) = run_registry_ops (apply_registry_op u x) xs"

section \<open>chat/models.py: the session\<close>

text \<open>
  The \<open>ChatSession\<close> model (\<open>id\<close> is \<open>session_id\<close>). \<open>assigned_agent\<close> is what the
  attribute gives in Python: \<open>None\<close>, or the related \<open>User\<close> object, which the session
  keeps and on which \<open>close_session\<close> calls \<open>decrement_chat_count\<close>. A nullable field is an
  option; \<open>created_at\<close> is \<open>None\<close> until the first save (\<open>auto_now_add\<close>).
  \<open>state_adding\<close> is the flag \<open>_state.adding\<close> that Django keeps on every model object:
  true on an object built in Python and not yet written, false once it was written or
  loaded from the table.
\<close>

record ChatSession =
  session_id :: string
  customer_name :: string
  customer_email :: string
  status :: string
  priority :: string
  assigned_agent :: "User option"
  resume_token :: "string option"
  resume_token_expires_at :: "datetime option"
  is_abandoned :: bool
  is_resumed :: bool
  requires_followup :: bool
  created_at :: "datetime option"
  updated_at :: "datetime option"
  first_response_at :: "datetime option"
  closed_at :: "datetime option"
  wait_time_seconds :: "int option"
  response_time_seconds :: "int option"
  total_duration_seconds :: "int option"
  message_count :: int
  state_adding :: bool

text \<open>
  \<open>self.save(update_fields=[...])\<close> on a session. The primary key has a default
  (\<open>uuid.uuid4\<close>), so on an object that is still being added Django inserts the row with
  all its fields: \<open>created_at\<close> (\<open>auto_now_add\<close>) and \<open>updated_at\<close> (\<open>auto_now\<close>) each
  take a reading of the clock, first and second component of the pair given here, and
  the object is no longer being added. On an object that was written before, the save
  is an update of the named fields, which are already set on the object, and touches
  nothing else. A failure of the storage itself is outside this model.
\<close>

definition save_update_fields :: "datetime \<times> datetime \<Rightarrow> ChatSession \<Rightarrow> ChatSession" where
  "save_update_fields ins s =
     (if state_adding s
      then s\<lparr>created_at := Some (fst ins), updated_at := Some (snd ins), state_adding := False\<rparr>
      else s)"

text \<open>
  \<open>generate_resume_token\<close>: the token drawn by \<open>secrets.token_urlsafe(32)\<close> and the
  clock reading \<open>timezone.now()\<close> are inputs. The method returns the token; the session
  after the call is the second component.
\<close>

definition generate_resume_token ::
  "string \<Rightarrow> datetime \<Rightarrow> datetime \<times> datetime \<Rightarrow> ChatSession \<Rightarrow> string \<times> ChatSession" where
  "generate_resume_token token now ins s =
     (token,
      save_update_fields ins
        (s\<lparr>resume_token := Some token,
           resume_token_expires_at := Some (now + timedelta_hours 24)\<rparr>))"

text \<open>
  \<open>is_resume_token_valid\<close>: \<open>not self.resume_token\<close> is true for \<open>None\<close> and for the
  empty string; a \<open>datetime\<close> is always true, so \<open>not self.resume_token_expires_at\<close> is
  true for \<open>None\<close> only.
\<close>

definition is_resume_token_valid :: "datetime \<Rightarrow> ChatSession \<Rightarrow> bool" where
  "is_resume_token_valid now s =
     (case resume_token s of
        None \<Rightarrow> False
      | Some t \<Rightarrow>
          if t = [] then False
          else (case resume_token_expires_at s of
                  None \<Rightarrow> False
                | Some e \<Rightarrow> now < e))"

definition mark_abandoned :: "datetime \<times> datetime \<Rightarrow> ChatSession \<Rightarrow> ChatSession" where
  "mark_abandoned ins s =
     (if status s = ''waiting''
      then save_update_fields ins (s\<lparr>is_abandoned := True, status := ''abandoned''\<rparr>)
      else s)"

text \<open>
  \<open>calculate_wait_time\<close>: when the guard passes, \<open>self.first_response_at - self.created_at\<close>
  raises \<open>TypeError\<close> on a session whose \<open>created_at\<close> is \<open>None\<close>, before anything is
  assigned or saved.
\<close>

datatype error = TypeError

definition calculate_wait_time :: "datetime \<times> datetime \<Rightarrow> ChatSession \<Rightarrow> error + ChatSession" where
  "calculate_wait_time ins s =
     (case first_response_at s of
        None \<Rightarrow> Inr s
      | Some f \<Rightarrow>
          if status s \<in> set [''assigned'', ''active'', ''closed'']
          then (case created_at s of
                  None \<Rightarrow> Inl TypeError
                | Some c \<Rightarrow>
                    Inr (save_update_fields ins
                           (s\<lparr>wait_time_seconds := Some (int_total_seconds (f - c))\<rparr>)))
          else Inr s)"

text \<open>\<open>close_session\<close>, with the clock reading \<open>timezone.now()\<close> as input.\<close>

definition close_session :: "datetime \<Rightarrow> datetime \<times> datetime \<Rightarrow> ChatSession \<Rightarrow> ChatSession" where
  "close_session now ins s =
     (let s1 = s\<lparr>status := ''closed'', closed_at := Some now\<rparr>;
          s2 = (case created_at s1 of
                  None \<Rightarrow> s1
                | Some c \<Rightarrow> s1\<lparr>total_duration_seconds := Some (int_total_seconds (now - c))\<rparr>);
          s3 = save_update_fields ins s2
      in (case assigned_agent s3 of
            None \<Rightarrow> s3
          | Some a \<Rightarrow> s3\<lparr>assigned_agent := Some (decrement_chat_count a)\<rparr>))"

text \<open>The three lifecycle methods of a session, as one call.\<close>

datatype session_op = Close datetime | CalculateWaitTime | MarkAbandoned

fun apply_session_op :: "datetime \<times> datetime \<Rightarrow> ChatSession \<Rightarrow> session_op \<Rightarrow> error + ChatSession" where
  "apply_session_op ins s (Close now) = Inr (close_session now ins s)"
| "apply_session_op ins s CalculateWaitTime = calculate_wait_time ins s"
| "apply_session_op ins s MarkAbandoned = Inr (mark_abandoned ins s)"

text \<open>The data model's invariant: \<open>closed_at\<close> is set exactly on a closed session.\<close>

definition closed_at_iff_closed :: "ChatSession \<Rightarrow> bool" where
  "closed_at_iff_closed s = ((closed_at s \<noteq> None) = (status s = ''closed''))"

section \<open>chat/models.py: the queue\<close>

text \<open>
  The \<open>ChatQueue\<close> model; \<open>priority\<close>, \<open>status\<close> and \<open>wait_time_seconds\<close> carry the
  prefix \<open>queue_\<close> here. \<open>session\<close> is the id of the session of the entry.
\<close>

record ChatQueue =
  queue_session :: string
  queue_priority :: int
  queue_position :: int
  queue_status :: string
  entered_queue_at :: datetime
  assigned_at :: "datetime option"
  queue_wait_time_seconds :: int

text \<open>
  \<open>Meta.ordering = ['-priority', 'entered_queue_at']\<close>: the rows of a query come sorted
  by descending priority, then by ascending entry time. The sort key of an entry is the
  pair compared lexicographically.
\<close>

definition ordering_key :: "ChatQueue \<Rightarrow> int \<times> datetime" where
  "ordering_key e = (- queue_priority e, entered_queue_at e)"

definition Meta_ordering :: "ChatQueue list \<Rightarrow> ChatQueue list" where
  "Meta_ordering es = sort_key ordering_key es"

section \<open>Example objects\<close>

text \<open>
  An online agent with two of five slots in use; an active session of the table assigned
  to that agent (created at time 0, first agent response 30.5 seconds later); the same
  session after it was closed at 60 seconds; a waiting session built in Python and never
  written; and two pending queue entries: a normal one that entered the queue first and
  an urgent one that entered five seconds later.
\<close>

definition agent_example :: User where
  "agent_example =
     \<lparr>user_id = ''a1'', email = ''agent@example.com'', role = ''agent'',
      user_status = ''online'', is_available = True, current_chats_count = 2,
      max_concurrent_chats = 5, total_chats_handled = 7, total_ratings = 0,
      last_activity = 0, user_updated_at = 0\<rparr>"

definition session_example :: ChatSession where
  "session_example =
     \<lparr>session_id = ''s1'', customer_name = ''Ada'', customer_email = ''ada@example.com'',
      status = ''active'', priority = ''normal'', assigned_agent = Some agent_example,
      resume_token = None, resume_token_expires_at = None, is_abandoned = False,
      is_resumed = False, requires_followup = False, created_at = Some 0,
      updated_at = Some 0, first_response_at = Some 30500000, closed_at = None,
      wait_time_seconds = None, response_time_seconds = None,
      total_duration_seconds = None, message_count = 4, state_adding = False\<rparr>"

definition closed_session_example :: ChatSession where
  "closed_session_example =
     session_example\<lparr>status := ''closed'', closed_at := Some 60000000,
       total_duration_seconds := Some 60,
       assigned_agent := Some (agent_example\<lparr>current_chats_count := 1\<rparr>)\<rparr>"

definition unsaved_session_example :: ChatSession where
  "unsaved_session_example =
     session_example\<lparr>status := ''waiting'', assigned_agent := None, created_at := None,
       updated_at := None, first_response_at := None, state_adding := True\<rparr>"

definition normal_entry :: ChatQueue where
  "normal_entry =
     \<lparr>queue_session = ''s1'', queue_priority = 1, queue_position = 1,
      queue_status = ''pending'', entered_queue_at = 0, assigned_at = None,
      queue_wait_time_seconds = 0\<rparr>"

definition urgent_entry :: ChatQueue where
  "urgent_entry =
     \<lparr>queue_session = ''s2'', queue_priority = 3, queue_position = 2,
      queue_status = ''pending'', entered_queue_at = 5000000, assigned_at = None,
      queue_wait_time_seconds = 0\<rparr>"

section \<open>Basic facts\<close>

lemma bit_length_le: "n < 2 ^ k \<Longrightarrow> bit_length n \<le> k"
proof (induction k arbitrary: n)
  case 0
  then show ?case by (simp add: bit_length.simps)
next
  case (Suc k)
  show ?case
  proof (cases "n \<le> 0")
    case True
    then show ?thesis by (simp add: bit_length.simps)
  next
    case False
    from Suc.prems have "n div 2 < 2 ^ k" by simp
    then have "bit_length (n div 2) \<le> k" by (rule Suc.IH)
    with False show ?thesis by (simp add: bit_length.simps [of n])
  qed
qed

lemma round_half_even_bounds:
  assumes "0 < m"
  shows "n div m \<le> round_half_even n m"
    and "round_half_even n m \<le> n div m + 1"
    and "2 * (n mod m) < m \<Longrightarrow> round_half_even n m = n div m"
  by (simp_all add: round_half_even_def Let_def)

lemma scaled_round_between:
  assumes d: "0 \<le> d" and K: "1 \<le> K"
  shows "(d div 1000000) * K \<le> round_half_even (d * K) 1000000"
    and "round_half_even (d * K) 1000000 \<le> (d div 1000000) * K + K"
    and "524288 \<le> K \<Longrightarrow> round_half_even (d * K) 1000000 < (d div 1000000) * K + K"
proof -
  define s where "s = d div 1000000"
  define r where "r = d mod 1000000"
  define a where "a = r * K"
  define F where "F = a div 1000000"
  define rho where "rho = a mod 1000000"
  have r: "0 \<le> r" "r \<le> 999999" by (simp_all add: r_def)
  have dsr: "d = 1000000 * s + r" by (simp add: s_def r_def)
  have a0: "0 \<le> a" using r K by (simp add: a_def)
  have "r * K \<le> 999999 * K" using r K by (intro mult_right_mono) simp_all
  then have aK: "a \<le> 1000000 * K - K" by (simp add: a_def)
  have aF: "a = 1000000 * F + rho" by (simp add: F_def rho_def)
  have rho: "0 \<le> rho" "rho < 1000000" by (simp_all add: rho_def)
  have dK: "d * K = a + (s * K) * 1000000"
    by (simp add: dsr a_def algebra_simps)
  have dv: "(d * K) div 1000000 = s * K + F"
    unfolding dK F_def by simp
  have md: "(d * K) mod 1000000 = rho"
    unfolding dK rho_def by simp
  have F0: "0 \<le> F" using a0 by (simp add: F_def pos_imp_zdiv_nonneg_iff)
  have FK: "F \<le> K - 1" using aF aK rho K by arith
  have lo: "(d * K) div 1000000 \<le> round_half_even (d * K) 1000000"
    by (rule round_half_even_bounds) simp
  have hi: "round_half_even (d * K) 1000000 \<le> (d * K) div 1000000 + 1"
    by (rule round_half_even_bounds) simp
  show "(d div 1000000) * K \<le> round_half_even (d * K) 1000000"
    using lo dv F0 by (simp add: s_def)
  show "round_half_even (d * K) 1000000 \<le> (d div 1000000) * K + K"
    using hi dv FK by (simp add: s_def)
  show "round_half_even (d * K) 1000000 < (d div 1000000) * K + K" if big: "524288 \<le> K"
  proof (cases "F \<le> K - 2")
    case True
    with hi dv show ?thesis by (simp add: s_def)
  next
    case False
    with FK have "F = K - 1" by simp
    with aF aK big have "2 * rho < 1000000" by arith
    with md have "2 * ((d * K) mod 1000000) < 1000000" by simp
    then have "round_half_even (d * K) 1000000 = (d * K) div 1000000"
      by (intro round_half_even_bounds(3)) simp_all
    with dv FK show ?thesis by (simp add: s_def)
  qed
qed

lemma div_between:
  fixes m :: int
  assumes "0 < K" "q * K \<le> m" "m < q * K + K"
  shows "m div K = q"
proof -
  define r where "r = m - q * K"
  have "m = r + q * K" by (simp add: r_def)
  moreover have "0 \<le> r" "r < K" using assms by (simp_all add: r_def)
  ultimately show ?thesis by simp
qed

lemma float_seconds_exact:
  assumes "0 \<le> d" and "d < 17179869184000000"
  shows "float_seconds d = d div 1000000"
proof (cases "d div 1000000 = 0")
  case True
  then show ?thesis by (simp add: float_seconds_def)
next
  case False
  define p where "p = bit_length (d div 1000000)"
  from assms(2) have "d div 1000000 < 2 ^ 34" by simp
  then have p34: "p \<le> 34" unfolding p_def by (rule bit_length_le)
  then have "(2::int) ^ 19 \<le> 2 ^ (53 - p)"
    by (intro power_increasing) simp_all
  then have K: "(524288::int) \<le> 2 ^ (53 - p)" by simp
  then have K1: "(1::int) \<le> 2 ^ (53 - p)" by simp
  have "round_half_even (d * 2 ^ (53 - p)) 1000000 div 2 ^ (53 - p) = d div 1000000"
    using scaled_round_between(1) [OF assms(1) K1] scaled_round_between(3) [OF assms(1) K1 K]
    by (intro div_between) simp_all
  with False p34 show ?thesis
    by (simp add: float_seconds_def Let_def p_def [symmetric])
qed

lemma int_total_seconds_exact:
  assumes "\<bar>d\<bar> < 17179869184000000"
  shows "int_total_seconds d = (if 0 \<le> d then d div 1000000 else - ((- d) div 1000000))"
  using assms by (simp add: int_total_seconds_def float_seconds_exact)

lemma int_total_seconds_rounds_up:
  "int_total_seconds 19999999999999999 = 20000000000"
  by code_simp

lemma int_total_seconds_numeral [simp]:
  "int_total_seconds 30500000 = 30" "int_total_seconds 60000000 = 60"
  "int_total_seconds 90000000 = 90" "int_total_seconds 45000000 = 45"
  "int_total_seconds (- 1500000) = - 1"
  by (simp_all add: int_total_seconds_exact)

lemma float_seconds_within_one:
  assumes "0 \<le> d" and "d < 9007199254740992000000"
  shows "d div 1000000 \<le> float_seconds d \<and> float_seconds d \<le> d div 1000000 + 1"
proof (cases "d div 1000000 = 0")
  case True
  then show ?thesis by (simp add: float_seconds_def)
next
  case False
  define p where "p = bit_length (d div 1000000)"
  define K :: int where "K = 2 ^ (53 - p)"
  define m where "m = round_half_even (d * K) 1000000"
  from assms(2) have "d div 1000000 < 2 ^ 53" by simp
  then have p53: "p \<le> 53" unfolding p_def by (rule bit_length_le)
  have K1: "1 \<le> K" by (simp add: K_def)
  have lo: "(d div 1000000) * K \<le> m" and hi: "m \<le> (d div 1000000) * K + K"
    unfolding m_def by (rule scaled_round_between [OF assms(1) K1])+
  from lo K1 have "((d div 1000000) * K) div K \<le> m div K"
    by (intro zdiv_mono1) simp_all
  with K1 have a: "d div 1000000 \<le> m div K" by simp
  from hi K1 have "m div K \<le> ((d div 1000000 + 1) * K) div K"
    by (intro zdiv_mono1) (simp_all add: algebra_simps)
  with K1 have b: "m div K \<le> d div 1000000 + 1" by simp
  from False p53 have "float_seconds d = m div K"
    by (simp add: float_seconds_def Let_def p_def [symmetric] m_def K_def)
  with a b show ?thesis by simp
qed

lemma int_total_seconds_within_one:
  assumes "\<bar>d\<bar> < 9007199254740992000000"
  shows "\<bar>int_total_seconds d - (if 0 \<le> d then d div 1000000 else - ((- d) div 1000000))\<bar> \<le> 1"
proof (cases "0 \<le> d")
  case True
  with assms float_seconds_within_one [of d] show ?thesis
    by (simp add: int_total_seconds_def)
next
  case False
  with assms float_seconds_within_one [of "- d"] show ?thesis
    by (simp add: int_total_seconds_def)
qed

lemma total_chats_handled_apply:
  "total_chats_handled u \<le> total_chats_handled (apply_registry_op u x)"
  by (cases x) (simp_all add: increment_chat_count_def decrement_chat_count_def)

lemma total_chats_handled_run:
  "total_chats_handled u \<le> total_chats_handled (run_registry_ops u xs)"
proof (induction xs arbitrary: u)
  case Nil
  show ?case by simp
next
  case (Cons x xs)
  have "total_chats_handled u \<le> total_chats_handled (apply_registry_op u x)"
    by (rule total_chats_handled_apply)
  also have "\<dots> \<le> total_chats_handled (run_registry_ops (apply_registry_op u x) xs)"
    by (rule Cons.IH)
  finally show ?case by simp
qed

lemma decrement_chat_count_user_id:
  "user_id (decrement_chat_count a) = user_id a"
  by (simp add: decrement_chat_count_def)

lemma decrement_twice_same:
  "(decrement_chat_count (decrement_chat_count a) = decrement_chat_count a)
     = (current_chats_count a \<le> 1)"
proof (cases "0 < current_chats_count a")
  case True
  then have "decrement_chat_count a = a\<lparr>current_chats_count := current_chats_count a - 1\<rparr>"
    by (simp add: decrement_chat_count_def)
  then show ?thesis
    by (auto simp add: decrement_chat_count_def dest: arg_cong [where f = current_chats_count])
next
  case False
  then show ?thesis by (simp add: decrement_chat_count_def)
qed

lemma ordering_key_le:
  "(ordering_key a \<le> ordering_key b) =
     (queue_priority b < queue_priority a
      \<or> (queue_priority a = queue_priority b \<and> entered_queue_at a \<le> entered_queue_at b))"
  by (auto simp add: ordering_key_def)

lemma Meta_ordering_sorted: "sorted (map ordering_key (Meta_ordering es))"
  by (simp add: Meta_ordering_def)

lemma Meta_ordering_set: "set (Meta_ordering es) = set es"
  by (simp add: Meta_ordering_def)

lemma sorted_key_hd_least:
  "sorted (map f xs) \<Longrightarrow> e \<in> set xs \<Longrightarrow> f (hd xs) \<le> f e"
  by (cases xs) auto

lemma sorted_key_first_occurrence:
  assumes "sorted (map f xs)" and "u \<in> set xs" and "f u < f n"
  shows "\<exists>pre post. xs = pre @ u # post \<and> n \<notin> set pre"
proof -
  from split_list_first [OF assms(2)]
  obtain pre post where xs: "xs = pre @ u # post" and "u \<notin> set pre" by blast
  have "n \<notin> set pre"
  proof
    assume "n \<in> set pre"
    with assms(1) xs have "f n \<le> f u"
      by (auto simp add: sorted_append)
    with assms(3) show False by simp
  qed
  with xs show ?thesis by blast
qed

lemma save_update_fields_fields:
  "status (save_update_fields ins s) = status s"
  "closed_at (save_update_fields ins s) = closed_at s"
  "assigned_agent (save_update_fields ins s) = assigned_agent s"
  "wait_time_seconds (save_update_fields ins s) = wait_time_seconds s"
  "response_time_seconds (save_update_fields ins s) = response_time_seconds s"
  "total_duration_seconds (save_update_fields ins s) = total_duration_seconds s"
  "first_response_at (save_update_fields ins s) = first_response_at s"
  "is_abandoned (save_update_fields ins s) = is_abandoned s"
  "resume_token (save_update_fields ins s) = resume_token s"
  "resume_token_expires_at (save_update_fields ins s) = resume_token_expires_at s"
  "state_adding (save_update_fields ins s) = False"
  "created_at (save_update_fields ins s) = (if state_adding s then Some (fst ins) else created_at s)"
  "updated_at (save_update_fields ins s) = (if state_adding s then Some (snd ins) else updated_at s)"
  by (simp_all add: save_update_fields_def)

lemma save_update_fields_saved:
  "\<not> state_adding s \<Longrightarrow> save_update_fields ins s = s"
  by (simp add: save_update_fields_def)

lemma close_session_fields:
  "status (close_session now ins s) = ''closed''"
  "closed_at (close_session now ins s) = Some now"
  "total_duration_seconds (close_session now ins s) =
     (case created_at s of None \<Rightarrow> total_duration_seconds s
      | Some c \<Rightarrow> Some (int_total_seconds (now - c)))"
  "assigned_agent (close_session now ins s) = map_option decrement_chat_count (assigned_agent s)"
  "created_at (close_session now ins s) = (if state_adding s then Some (fst ins) else created_at s)"
  "wait_time_seconds (close_session now ins s) = wait_time_seconds s"
  "response_time_seconds (close_session now ins s) = response_time_seconds s"
  "state_adding (close_session now ins s) = False"
  by (simp_all add: close_session_def Let_def save_update_fields_def split: option.split)

lemma close_session_saved_eq:
  "\<not> state_adding s \<Longrightarrow>
   close_session now ins s =
     s\<lparr>status := ''closed'', closed_at := Some now,
       total_duration_seconds :=
         (case created_at s of None \<Rightarrow> total_duration_seconds s
          | Some c \<Rightarrow> Some (int_total_seconds (now - c))),
       assigned_agent := map_option decrement_chat_count (assigned_agent s)\<rparr>"
  by (simp add: close_session_def Let_def save_update_fields_def split: option.split)

lemma calculate_wait_time_cases:
  "calculate_wait_time ins s = Inr s' \<Longrightarrow>
     s' = s \<or> (\<exists>w. s' = save_update_fields ins (s\<lparr>wait_time_seconds := Some w\<rparr>))"
  by (auto simp add: calculate_wait_time_def split: option.splits if_splits)

lemma calculate_wait_time_keeps:
  assumes "calculate_wait_time ins s = Inr s'"
  shows "status s' = status s" and "closed_at s' = closed_at s"
    and "assigned_agent s' = assigned_agent s"
    and "response_time_seconds s' = response_time_seconds s"
    and "total_duration_seconds s' = total_duration_seconds s"
  using calculate_wait_time_cases [OF assms]
  by (auto simp add: save_update_fields_fields)

lemma closed_at_iff_closed_preserved:
  "closed_at_iff_closed s \<Longrightarrow> apply_session_op ins s x = Inr s' \<Longrightarrow> closed_at_iff_closed s'"
proof (cases x)
  case (Close now)
  assume "apply_session_op ins s x = Inr s'"
  with Close have "s' = close_session now ins s" by simp
  then show ?thesis by (simp add: closed_at_iff_closed_def close_session_fields)
next
  case CalculateWaitTime
  assume inv: "closed_at_iff_closed s" and "apply_session_op ins s x = Inr s'"
  with CalculateWaitTime have "calculate_wait_time ins s = Inr s'" by simp
  from calculate_wait_time_keeps [OF this] inv show ?thesis
    by (simp add: closed_at_iff_closed_def)
next
  case MarkAbandoned
  assume inv: "closed_at_iff_closed s" and "apply_session_op ins s x = Inr s'"
  with MarkAbandoned have "s' = mark_abandoned ins s" by simp
  with inv show ?thesis
    by (auto simp add: closed_at_iff_closed_def mark_abandoned_def save_update_fields_fields)
qed

lemma closed_session_kept:
  "status s = ''closed'' \<Longrightarrow> apply_session_op ins s x = Inr s' \<Longrightarrow>
     status s' = ''closed''
     \<and> map_option user_id (assigned_agent s') = map_option user_id (assigned_agent s)
     \<and> response_time_seconds s' = response_time_seconds s"
proof (cases x)
  case (Close now)
  assume "apply_session_op ins s x = Inr s'"
  with Close have "s' = close_session now ins s" by simp
  then show ?thesis
    by (simp add: close_session_fields option.map_comp comp_def decrement_chat_count_user_id)
next
  case CalculateWaitTime
  assume c: "status s = ''closed''" and "apply_session_op ins s x = Inr s'"
  with CalculateWaitTime have "calculate_wait_time ins s = Inr s'" by simp
  from calculate_wait_time_keeps [OF this] c show ?thesis by simp
next
  case MarkAbandoned
  assume c: "status s = ''closed''" and "apply_session_op ins s x = Inr s'"
  with MarkAbandoned have "s' = mark_abandoned ins s" by simp
  with c show ?thesis by (simp add: mark_abandoned_def)
qed

section \<open>The agent's counters\<close>

text \<open>
  An agent whose five slots are all in use satisfies the capacity invariant; after
  \<open>increment_chat_count\<close> the count is 6 with a limit of 5. The method has no upper guard.
\<close>

theorem capacity_invariant_counterexample:
  "capacity_ok (agent_example\<lparr>current_chats_count := 5\<rparr>)
   \<and> current_chats_count (increment_chat_count (agent_example\<lparr>current_chats_count := 5\<rparr>)) = 6
   \<and> max_concurrent_chats (increment_chat_count (agent_example\<lparr>current_chats_count := 5\<rparr>)) = 5
   \<and> \<not> capacity_ok (increment_chat_count (agent_example\<lparr>current_chats_count := 5\<rparr>))"
  by (simp add: agent_example_def capacity_ok_def increment_chat_count_def)

text \<open>
  Claim C2, as the code has it. \<open>decrement_chat_count\<close> preserves
  \<open>0 \<le> current_chats_count \<le> max_concurrent_chats\<close>, never lowers a non-negative count
  below 0, and changes nothing when the count is 0. \<open>increment_chat_count\<close> preserves the
  invariant exactly when \<open>current_chats_count < max_concurrent_chats\<close> held before the
  call; it does not check this itself.
\<close>

theorem capacity_invariant_registry:
  "(capacity_ok u \<longrightarrow> capacity_ok (decrement_chat_count u))
   \<and> (0 \<le> current_chats_count u \<longrightarrow> 0 \<le> current_chats_count (decrement_chat_count u))
   \<and> (current_chats_count u = 0 \<longrightarrow> decrement_chat_count u = u)
   \<and> (capacity_ok u \<longrightarrow>
        capacity_ok (increment_chat_count u) = (current_chats_count u < max_concurrent_chats u))"
  by (auto simp add: capacity_ok_def decrement_chat_count_def increment_chat_count_def)

theorem capacity_invariant_registry_witness:
  "capacity_ok agent_example
   \<and> capacity_ok (decrement_chat_count agent_example)
   \<and> capacity_ok (increment_chat_count agent_example)
   \<and> current_chats_count (agent_example\<lparr>current_chats_count := 0\<rparr>) = 0
   \<and> decrement_chat_count (agent_example\<lparr>current_chats_count := 0\<rparr>)
       = agent_example\<lparr>current_chats_count := 0\<rparr>"
proof -
  have ok: "capacity_ok agent_example"
    by (simp add: agent_example_def capacity_ok_def)
  have lt: "current_chats_count agent_example < max_concurrent_chats agent_example"
    by (simp add: agent_example_def)
  have z: "current_chats_count (agent_example\<lparr>current_chats_count := 0\<rparr>) = 0"
    by simp
  from capacity_invariant_registry [of agent_example] ok lt
  have a: "capacity_ok (decrement_chat_count agent_example)"
    and b: "capacity_ok (increment_chat_count agent_example)"
    by simp_all
  from capacity_invariant_registry [of "agent_example\<lparr>current_chats_count := 0\<rparr>"] z
  have c: "decrement_chat_count (agent_example\<lparr>current_chats_count := 0\<rparr>)
       = agent_example\<lparr>current_chats_count := 0\<rparr>"
    by blast
  from ok a b z c show ?thesis by blast
qed

text \<open>
  An agent who is offline and not available cannot accept a chat, yet
  \<open>increment_chat_count\<close> raises both counters of that agent: the mutation is not tied to
  the check.
\<close>

theorem reserve_unguarded_counterexample:
  "\<not> can_accept_chat (agent_example\<lparr>user_status := ''offline'', is_available := False\<rparr>)
   \<and> current_chats_count
        (increment_chat_count (agent_example\<lparr>user_status := ''offline'', is_available := False\<rparr>)) = 3
   \<and> total_chats_handled
        (increment_chat_count (agent_example\<lparr>user_status := ''offline'', is_available := False\<rparr>)) = 8
   \<and> increment_chat_count (agent_example\<lparr>user_status := ''offline'', is_available := False\<rparr>)
       \<noteq> agent_example\<lparr>user_status := ''offline'', is_available := False\<rparr>"
  by (simp add: agent_example_def can_accept_chat_def increment_chat_count_def)

text \<open>
  Claim C3, as the code has it. The check and the mutation are two methods.
  \<open>can_accept_chat\<close> is true exactly when \<open>is_available\<close> holds, the status is
  \<open>online\<close> and \<open>current_chats_count < max_concurrent_chats\<close>; it only reads.
  \<open>increment_chat_count\<close> adds one to \<open>current_chats_count\<close> and to
  \<open>total_chats_handled\<close> and to nothing else, whatever the check would say. When the check
  was true before the increment, the count stays within \<open>max_concurrent_chats\<close>.
\<close>

theorem check_then_increment:
  "can_accept_chat u =
     (is_available u \<and> user_status u = ''online'' \<and>
      current_chats_count u < max_concurrent_chats u)
   \<and> increment_chat_count u =
       u\<lparr>current_chats_count := current_chats_count u + 1,
         total_chats_handled := total_chats_handled u + 1\<rparr>
   \<and> increment_chat_count u \<noteq> u
   \<and> (can_accept_chat u \<longrightarrow>
        current_chats_count (increment_chat_count u) \<le> max_concurrent_chats (increment_chat_count u))"
proof -
  have "current_chats_count (increment_chat_count u) \<noteq> current_chats_count u"
    by (simp add: increment_chat_count_def)
  then have "increment_chat_count u \<noteq> u" by auto
  then show ?thesis
    by (simp add: can_accept_chat_def increment_chat_count_def)
qed

theorem check_then_increment_witness:
  "can_accept_chat agent_example
   \<and> increment_chat_count agent_example
       = agent_example\<lparr>current_chats_count := 3, total_chats_handled := 8\<rparr>
   \<and> current_chats_count (increment_chat_count agent_example) \<le> 5"
proof -
  have c: "can_accept_chat agent_example"
    by (simp add: agent_example_def can_accept_chat_def)
  from check_then_increment [of agent_example] c
  have "current_chats_count (increment_chat_count agent_example)
           \<le> max_concurrent_chats (increment_chat_count agent_example)"
    by blast
  with c show ?thesis
    by (simp add: agent_example_def increment_chat_count_def)
qed

text \<open>
  Claim C10. \<open>decrement_chat_count\<close> changes \<open>current_chats_count\<close> and no other field, so
  \<open>total_chats_handled\<close> is as before; \<open>increment_chat_count\<close> adds one to
  \<open>total_chats_handled\<close>; hence after any sequence of the two methods
  \<open>total_chats_handled\<close> is at least what it was.
\<close>

theorem decrement_frame_total_monotone:
  "decrement_chat_count u =
     u\<lparr>current_chats_count :=
         (if 0 < current_chats_count u then current_chats_count u - 1 else current_chats_count u)\<rparr>
   \<and> total_chats_handled (decrement_chat_count u) = total_chats_handled u
   \<and> total_chats_handled (increment_chat_count u) = total_chats_handled u + 1
   \<and> total_chats_handled u \<le> total_chats_handled (run_registry_ops u ops)"
  by (simp add: decrement_chat_count_def increment_chat_count_def total_chats_handled_run)

theorem decrement_frame_total_monotone_witness:
  "decrement_chat_count agent_example = agent_example\<lparr>current_chats_count := 1\<rparr>
   \<and> total_chats_handled agent_example
       \<le> total_chats_handled (run_registry_ops agent_example [Decrement, Increment, Decrement])
   \<and> total_chats_handled (run_registry_ops agent_example [Decrement, Increment, Decrement]) = 8"
proof -
  from decrement_frame_total_monotone [of agent_example "[Decrement, Increment, Decrement]"]
  have "decrement_chat_count agent_example =
     agent_example\<lparr>current_chats_count :=
         (if 0 < current_chats_count agent_example then current_chats_count agent_example - 1
          else current_chats_count agent_example)\<rparr>"
    and m: "total_chats_handled agent_example
       \<le> total_chats_handled (run_registry_ops agent_example [Decrement, Increment, Decrement])"
    by blast+
  then have d: "decrement_chat_count agent_example = agent_example\<lparr>current_chats_count := 1\<rparr>"
    by (simp add: agent_example_def)
  have "total_chats_handled (run_registry_ops agent_example [Decrement, Increment, Decrement]) = 8"
    by (simp add: agent_example_def decrement_chat_count_def increment_chat_count_def)
  with d m show ?thesis by blast
qed

section \<open>Closing a session\<close>



text \<open>
  Closing the example session at 60 seconds and again at 90 seconds: the second call
  moves \<open>closed_at\<close> from 60 to 90 seconds, \<open>total_duration_seconds\<close> from 60 to 90 and
  the agent's \<open>current_chats_count\<close> from 1 to 0.
\<close>

theorem close_session_twice_counterexample:
  "close_session 90000000 (0, 0) (close_session 60000000 (0, 0) session_example)
     \<noteq> close_session 60000000 (0, 0) session_example
   \<and> closed_at (close_session 60000000 (0, 0) session_example) = Some 60000000
   \<and> closed_at (close_session 90000000 (0, 0) (close_session 60000000 (0, 0) session_example))
       = Some 90000000
   \<and> total_duration_seconds (close_session 60000000 (0, 0) session_example) = Some 60
   \<and> total_duration_seconds
        (close_session 90000000 (0, 0) (close_session 60000000 (0, 0) session_example)) = Some 90
   \<and> map_option current_chats_count
        (assigned_agent (close_session 60000000 (0, 0) session_example)) = Some 1
   \<and> map_option current_chats_count
        (assigned_agent
           (close_session 90000000 (0, 0) (close_session 60000000 (0, 0) session_example)))
       = Some 0"
proof -
  have a: "closed_at (close_session 60000000 (0, 0) session_example) = Some 60000000"
    and b: "closed_at (close_session 90000000 (0, 0) (close_session 60000000 (0, 0) session_example))
       = Some 90000000"
    by (simp_all add: close_session_fields)
  have c: "total_duration_seconds (close_session 60000000 (0, 0) session_example) = Some 60"
    by (simp add: close_session_fields session_example_def)
  have d: "total_duration_seconds
        (close_session 90000000 (0, 0) (close_session 60000000 (0, 0) session_example)) = Some 90"
    by (simp add: close_session_fields session_example_def)
  have e: "map_option current_chats_count
        (assigned_agent (close_session 60000000 (0, 0) session_example)) = Some 1"
    by (simp add: close_session_fields session_example_def agent_example_def
        decrement_chat_count_def)
  have f: "map_option current_chats_count
        (assigned_agent
           (close_session 90000000 (0, 0) (close_session 60000000 (0, 0) session_example)))
       = Some 0"
    by (simp add: close_session_fields session_example_def agent_example_def
        decrement_chat_count_def)
  have "close_session 90000000 (0, 0) (close_session 60000000 (0, 0) session_example)
     \<noteq> close_session 60000000 (0, 0) session_example"
    using a b by auto
  with a b c d e f show ?thesis by blast
qed

text \<open>
  Claim C1, as the code has it. \<open>close_session\<close> has no guard. A second call at time
  \<open>t2\<close> leaves the status \<open>closed\<close>, sets \<open>closed_at\<close> to \<open>t2\<close>, sets
  \<open>total_duration_seconds\<close> from \<open>t2\<close> and the \<open>created_at\<close> the session has after the
  first call (when there is one), and decrements the assigned agent's count a second
  time. After the first call \<open>created_at\<close> is what it was before, unless the session had
  never been written: then the save of the first call has set it. The state after the
  second call equals the state after the first exactly when both calls read the same
  time, either no agent is assigned or the agent's count was at most 1 before the first
  call, and, if the session had never been written before the first call, the duration
  the first call stored is the one computed from the \<open>created_at\<close> its save has set.
\<close>

theorem close_session_twice:
  "status (close_session t2 i2 (close_session t1 i1 s)) = ''closed''
   \<and> closed_at (close_session t2 i2 (close_session t1 i1 s)) = Some t2
   \<and> created_at (close_session t1 i1 s)
       = (if state_adding s then Some (fst i1) else created_at s)
   \<and> total_duration_seconds (close_session t2 i2 (close_session t1 i1 s))
       = (case created_at (close_session t1 i1 s) of
            None \<Rightarrow> total_duration_seconds (close_session t1 i1 s)
          | Some c \<Rightarrow> Some (int_total_seconds (t2 - c)))
   \<and> assigned_agent (close_session t2 i2 (close_session t1 i1 s))
       = map_option (\<lambda>a. decrement_chat_count (decrement_chat_count a)) (assigned_agent s)
   \<and> (close_session t2 i2 (close_session t1 i1 s) = close_session t1 i1 s)
       = (t2 = t1
          \<and> (case assigned_agent s of None \<Rightarrow> True | Some a \<Rightarrow> current_chats_count a \<le> 1)
          \<and> (state_adding s \<longrightarrow>
               total_duration_seconds (close_session t1 i1 s)
                 = Some (int_total_seconds (t1 - fst i1))))"
proof -
  let ?S1 = "close_session t1 i1 s"
  let ?S2 = "close_session t2 i2 ?S1"
  have na: "\<not> state_adding ?S1" by (simp add: close_session_fields)
  have 1: "status ?S2 = ''closed''" and 2: "closed_at ?S2 = Some t2"
    by (simp_all add: close_session_fields)
  have 3: "created_at ?S1 = (if state_adding s then Some (fst i1) else created_at s)"
    by (simp add: close_session_fields)
  have 4: "total_duration_seconds ?S2
       = (case created_at ?S1 of
            None \<Rightarrow> total_duration_seconds ?S1
          | Some c \<Rightarrow> Some (int_total_seconds (t2 - c)))"
    by (simp add: close_session_fields(3) [of t2 i2 ?S1])
  have 5: "assigned_agent ?S2
       = map_option (\<lambda>a. decrement_chat_count (decrement_chat_count a)) (assigned_agent s)"
    by (simp add: close_session_fields option.map_comp comp_def)
  have agent: "(assigned_agent ?S2 = assigned_agent ?S1)
       = (case assigned_agent s of None \<Rightarrow> True | Some a \<Rightarrow> current_chats_count a \<le> 1)"
    by (simp add: 5 close_session_fields decrement_twice_same split: option.split)
  have dur: "(total_duration_seconds (close_session t1 i2 ?S1) = total_duration_seconds ?S1)
       = (state_adding s \<longrightarrow>
            total_duration_seconds ?S1 = Some (int_total_seconds (t1 - fst i1)))"
    by (auto simp add: close_session_fields(3) [of t1 i2 ?S1] close_session_fields
        split: option.splits)
  have eq: "(?S2 = ?S1)
       = (closed_at ?S2 = closed_at ?S1
          \<and> total_duration_seconds ?S2 = total_duration_seconds ?S1
          \<and> assigned_agent ?S2 = assigned_agent ?S1)"
  proof
    assume "?S2 = ?S1"
    then show "closed_at ?S2 = closed_at ?S1
          \<and> total_duration_seconds ?S2 = total_duration_seconds ?S1
          \<and> assigned_agent ?S2 = assigned_agent ?S1"
      by simp
  next
    assume h: "closed_at ?S2 = closed_at ?S1
          \<and> total_duration_seconds ?S2 = total_duration_seconds ?S1
          \<and> assigned_agent ?S2 = assigned_agent ?S1"
    have "?S2 = ?S1\<lparr>status := ''closed'', closed_at := closed_at ?S2,
         total_duration_seconds := total_duration_seconds ?S2,
         assigned_agent := assigned_agent ?S2\<rparr>"
      by (simp add: close_session_saved_eq [OF na, of t2 i2] close_session_fields)
    also have "\<dots> = ?S1\<lparr>status := status ?S1, closed_at := closed_at ?S1,
         total_duration_seconds := total_duration_seconds ?S1,
         assigned_agent := assigned_agent ?S1\<rparr>"
      using h by (simp add: close_session_fields(1))
    also have "\<dots> = ?S1" by simp
    finally show "?S2 = ?S1" .
  qed
  have 6: "(?S2 = ?S1)
       = (t2 = t1
          \<and> (case assigned_agent s of None \<Rightarrow> True | Some a \<Rightarrow> current_chats_count a \<le> 1)
          \<and> (state_adding s \<longrightarrow>
               total_duration_seconds ?S1 = Some (int_total_seconds (t1 - fst i1))))"
  proof (cases "t2 = t1")
    case False
    then have "closed_at ?S2 \<noteq> closed_at ?S1" by (simp add: close_session_fields)
    with False eq show ?thesis by simp
  next
    case True
    have "closed_at ?S2 = closed_at ?S1" using True by (simp add: close_session_fields)
    with eq agent dur True show ?thesis by auto
  qed
  from 1 2 3 4 5 6 show ?thesis by blast
qed

theorem close_session_twice_witness:
  "close_session 60000000 (0, 0) (close_session 60000000 (0, 0) closed_session_example)
     = close_session 60000000 (0, 0) closed_session_example
   \<and> closed_at
        (close_session 90000000 (0, 0) (close_session 60000000 (0, 0) closed_session_example))
       = Some 90000000
   \<and> created_at (close_session 60000000 (61000000, 61000001) unsaved_session_example)
       = Some 61000000"
proof -
  have "assigned_agent closed_session_example = Some (agent_example\<lparr>current_chats_count := 1\<rparr>)"
    by (simp add: closed_session_example_def)
  then have a: "(case assigned_agent closed_session_example of None \<Rightarrow> True
              | Some a \<Rightarrow> current_chats_count a \<le> 1)"
    by simp
  have n: "\<not> state_adding closed_session_example"
    by (simp add: closed_session_example_def session_example_def)
  have u: "state_adding unsaved_session_example"
    by (simp add: unsaved_session_example_def)
  from close_session_twice [of 60000000 "(0, 0)" 60000000 "(0, 0)" closed_session_example] a n
  have 1: "close_session 60000000 (0, 0) (close_session 60000000 (0, 0) closed_session_example)
     = close_session 60000000 (0, 0) closed_session_example"
    by simp
  from close_session_twice [of 90000000 "(0, 0)" 60000000 "(0, 0)" closed_session_example]
  have 2: "closed_at
        (close_session 90000000 (0, 0) (close_session 60000000 (0, 0) closed_session_example))
       = Some 90000000"
    by blast
  from close_session_twice [of 90000000 "(0, 0)" 60000000 "(61000000, 61000001)"
      unsaved_session_example] u
  have 3: "created_at (close_session 60000000 (61000000, 61000001) unsaved_session_example)
       = Some 61000000"
    by simp
  from 1 2 3 show ?thesis by blast
qed

section \<open>Abandonment and wait time\<close>

text \<open>
  Claim C6. On a session whose status is \<open>waiting\<close>, \<open>mark_abandoned\<close> sets the status to
  \<open>abandoned\<close> and \<open>is_abandoned\<close> to true. On a session of the table it changes
  nothing else; on a session that was never written, its save inserts the row, which
  sets \<open>created_at\<close> and \<open>updated_at\<close>. On a session with any other status, among them
  \<open>bot\<close>, \<open>assigned\<close>, \<open>active\<close>, \<open>on_hold\<close>, \<open>abandoned\<close> and \<open>closed\<close>, it changes
  nothing at all.
\<close>

theorem mark_abandoned_guarded:
  "(status s = ''waiting'' \<longrightarrow>
      status (mark_abandoned ins s) = ''abandoned''
      \<and> is_abandoned (mark_abandoned ins s) = True
      \<and> mark_abandoned ins s =
          (if state_adding s
           then s\<lparr>is_abandoned := True, status := ''abandoned'',
                  created_at := Some (fst ins), updated_at := Some (snd ins),
                  state_adding := False\<rparr>
           else s\<lparr>is_abandoned := True, status := ''abandoned''\<rparr>))
   \<and> (status s \<noteq> ''waiting'' \<longrightarrow> mark_abandoned ins s = s)
   \<and> (status s \<in> set [''bot'', ''assigned'', ''active'', ''on_hold'', ''abandoned'', ''closed'']
        \<longrightarrow> mark_abandoned ins s = s)"
  by (auto simp add: mark_abandoned_def save_update_fields_def)

theorem mark_abandoned_guarded_witness:
  "mark_abandoned (0, 0) (session_example\<lparr>status := ''waiting''\<rparr>)
     = session_example\<lparr>status := ''abandoned'', is_abandoned := True\<rparr>
   \<and> mark_abandoned (61000000, 61000001) unsaved_session_example
       = unsaved_session_example\<lparr>status := ''abandoned'', is_abandoned := True,
           created_at := Some 61000000, updated_at := Some 61000001, state_adding := False\<rparr>
   \<and> mark_abandoned (0, 0) session_example = session_example
   \<and> mark_abandoned (0, 0) closed_session_example = closed_session_example"
proof -
  have w: "status (session_example\<lparr>status := ''waiting''\<rparr>) = ''waiting''"
    by simp
  have u: "status unsaved_session_example = ''waiting''"
    by (simp add: unsaved_session_example_def)
  have a: "status session_example \<noteq> ''waiting''"
    by (simp add: session_example_def)
  have c: "status closed_session_example
     \<in> set [''bot'', ''assigned'', ''active'', ''on_hold'', ''abandoned'', ''closed'']"
    by (simp add: closed_session_example_def)
  from mark_abandoned_guarded [of "session_example\<lparr>status := ''waiting''\<rparr>" "(0, 0)"] w
  have "mark_abandoned (0, 0) (session_example\<lparr>status := ''waiting''\<rparr>)
     = session_example\<lparr>status := ''abandoned'', is_abandoned := True\<rparr>"
    by (simp add: session_example_def)
  moreover
  from mark_abandoned_guarded [of unsaved_session_example "(61000000, 61000001)"] u
  have "mark_abandoned (61000000, 61000001) unsaved_session_example
       = unsaved_session_example\<lparr>status := ''abandoned'', is_abandoned := True,
           created_at := Some 61000000, updated_at := Some 61000001, state_adding := False\<rparr>"
    by (simp add: unsaved_session_example_def session_example_def)
  moreover from mark_abandoned_guarded [of session_example "(0, 0)"] a
  have "mark_abandoned (0, 0) session_example = session_example" by blast
  moreover from mark_abandoned_guarded [of closed_session_example "(0, 0)"] c
  have "mark_abandoned (0, 0) closed_session_example = closed_session_example" by blast
  ultimately show ?thesis by blast
qed

text \<open>
  On the active example session \<open>calculate_wait_time\<close> stores 30 seconds. After
  \<open>first_response_at\<close> has moved to 45 seconds, a later call on the same session, which
  already holds a wait time, stores 45 seconds: the value is computed again.
\<close>

theorem calculate_wait_time_recomputed_counterexample:
  "calculate_wait_time (0, 0) session_example
     = Inr (session_example\<lparr>wait_time_seconds := Some 30\<rparr>)
   \<and> calculate_wait_time (0, 0)
       (session_example\<lparr>wait_time_seconds := Some 30, first_response_at := Some 45000000\<rparr>)
     = Inr (session_example\<lparr>wait_time_seconds := Some 45, first_response_at := Some 45000000\<rparr>)"
  by (simp add: calculate_wait_time_def save_update_fields_def session_example_def)

text \<open>
  Claim C7, as the code has it. \<open>calculate_wait_time\<close> changes nothing when
  \<open>first_response_at\<close> is not set or the status is not one of \<open>assigned\<close>, \<open>active\<close>,
  \<open>closed\<close>. Otherwise it raises \<open>TypeError\<close> when \<open>created_at\<close> is not set, and else
  sets \<open>wait_time_seconds\<close> to \<open>int(delta.total_seconds())\<close> of
  \<open>first_response_at - created_at\<close>: the whole seconds of the difference, cut towards
  zero, whenever the two instants are less than \<open>2^34\<close> seconds apart, and within one of
  them whenever they are less than \<open>2^53\<close> seconds apart. It leaves the other fields of
  a session of the table (on a session never written, its save sets \<open>created_at\<close> and
  \<open>updated_at\<close>). Every such call computes the value from the timestamps as they are
  then and overwrites the stored one; on a session of the table a second call right
  after a first one changes nothing more.
\<close>

theorem calculate_wait_time_effect:
  "(first_response_at s = None
      \<or> status s \<notin> set [''assigned'', ''active'', ''closed'']
      \<longrightarrow> calculate_wait_time ins s = Inr s)
   \<and> (\<forall>f. first_response_at s = Some f
          \<and> status s \<in> set [''assigned'', ''active'', ''closed'']
          \<and> created_at s = None
        \<longrightarrow> calculate_wait_time ins s = Inl TypeError)
   \<and> (\<forall>f c. first_response_at s = Some f
          \<and> status s \<in> set [''assigned'', ''active'', ''closed'']
          \<and> created_at s = Some c
        \<longrightarrow> calculate_wait_time ins s
              = Inr (if state_adding s
                     then s\<lparr>wait_time_seconds := Some (int_total_seconds (f - c)),
                            created_at := Some (fst ins), updated_at := Some (snd ins),
                            state_adding := False\<rparr>
                     else s\<lparr>wait_time_seconds := Some (int_total_seconds (f - c))\<rparr>)
            \<and> (\<bar>f - c\<bar> < 17179869184000000 \<longrightarrow>
                 int_total_seconds (f - c)
                   = (if c \<le> f then (f - c) div 1000000 else - ((c - f) div 1000000)))
            \<and> (\<bar>f - c\<bar> < 9007199254740992000000 \<longrightarrow>
                 \<bar>int_total_seconds (f - c)
                    - (if c \<le> f then (f - c) div 1000000
                       else - ((c - f) div 1000000))\<bar> \<le> 1))
   \<and> (\<not> state_adding s \<longrightarrow>
        (\<forall>s'. calculate_wait_time ins s = Inr s' \<longrightarrow> calculate_wait_time ins' s' = Inr s'))"
proof -
  have t: "\<bar>f - c\<bar> < 17179869184000000 \<Longrightarrow>
      int_total_seconds (f - c)
        = (if c \<le> f then (f - c) div 1000000 else - ((c - f) div 1000000))" for f c :: int
    using int_total_seconds_exact [of "f - c"] by (cases "c \<le> f") simp_all
  have w: "\<bar>f - c\<bar> < 9007199254740992000000 \<Longrightarrow>
      \<bar>int_total_seconds (f - c)
         - (if c \<le> f then (f - c) div 1000000 else - ((c - f) div 1000000))\<bar> \<le> 1"
    for f c :: int
    using int_total_seconds_within_one [of "f - c"] by (cases "c \<le> f") simp_all
  have 1: "first_response_at s = None
      \<or> status s \<notin> set [''assigned'', ''active'', ''closed'']
      \<longrightarrow> calculate_wait_time ins s = Inr s"
    by (auto simp add: calculate_wait_time_def split: option.splits)
  have 2: "\<forall>f. first_response_at s = Some f
          \<and> status s \<in> set [''assigned'', ''active'', ''closed'']
          \<and> created_at s = None
        \<longrightarrow> calculate_wait_time ins s = Inl TypeError"
    by (auto simp add: calculate_wait_time_def)
  have 3: "first_response_at s = Some f
          \<and> status s \<in> set [''assigned'', ''active'', ''closed'']
          \<and> created_at s = Some c
        \<Longrightarrow> calculate_wait_time ins s
              = Inr (if state_adding s
                     then s\<lparr>wait_time_seconds := Some (int_total_seconds (f - c)),
                            created_at := Some (fst ins), updated_at := Some (snd ins),
                            state_adding := False\<rparr>
                     else s\<lparr>wait_time_seconds := Some (int_total_seconds (f - c))\<rparr>)" for f c
    by (auto simp add: calculate_wait_time_def save_update_fields_def)
  have 4: "\<not> state_adding s \<longrightarrow>
        (\<forall>s'. calculate_wait_time ins s = Inr s' \<longrightarrow> calculate_wait_time ins' s' = Inr s')"
    by (auto simp add: calculate_wait_time_def save_update_fields_def
        split: option.splits if_splits)
  from 1 2 3 4 t w show ?thesis by blast
qed

theorem calculate_wait_time_effect_witness:
  "calculate_wait_time (0, 0) (session_example\<lparr>status := ''waiting''\<rparr>)
     = Inr (session_example\<lparr>status := ''waiting''\<rparr>)
   \<and> calculate_wait_time (0, 0) session_example
       = Inr (session_example\<lparr>wait_time_seconds := Some 30\<rparr>)
   \<and> int_total_seconds (30500000 - 0) = 30
   \<and> calculate_wait_time (0, 0) (session_example\<lparr>wait_time_seconds := Some 30\<rparr>)
       = Inr (session_example\<lparr>wait_time_seconds := Some 30\<rparr>)
   \<and> calculate_wait_time (0, 0) (session_example\<lparr>created_at := None\<rparr>) = Inl TypeError"
proof -
  have w: "status (session_example\<lparr>status := ''waiting''\<rparr>)
      \<notin> set [''assigned'', ''active'', ''closed'']"
    by simp
  have g: "first_response_at session_example = Some 30500000
      \<and> status session_example \<in> set [''assigned'', ''active'', ''closed'']
      \<and> created_at session_example = Some 0"
    by (simp add: session_example_def)
  have n: "first_response_at (session_example\<lparr>created_at := None\<rparr>) = Some 30500000
      \<and> status (session_example\<lparr>created_at := None\<rparr>) \<in> set [''assigned'', ''active'', ''closed'']
      \<and> created_at (session_example\<lparr>created_at := None\<rparr>) = None"
    by (simp add: session_example_def)
  have sv: "\<not> state_adding session_example"
    by (simp add: session_example_def)
  have r: "\<bar>30500000 - (0::int)\<bar> < 17179869184000000" by simp
  from calculate_wait_time_effect [of "session_example\<lparr>status := ''waiting''\<rparr>" "(0, 0)"] w
  have 1: "calculate_wait_time (0, 0) (session_example\<lparr>status := ''waiting''\<rparr>)
     = Inr (session_example\<lparr>status := ''waiting''\<rparr>)"
    by blast
  note E = calculate_wait_time_effect [of session_example "(0, 0)" "(0, 0)",
      THEN conjunct2, THEN conjunct2, THEN conjunct1, THEN spec, THEN spec, THEN mp, OF g]
  from E r have 2: "int_total_seconds (30500000 - 0) = 30" by simp
  from E sv 2 have 3: "calculate_wait_time (0, 0) session_example
       = Inr (session_example\<lparr>wait_time_seconds := Some 30\<rparr>)"
    by simp
  from calculate_wait_time_effect [of session_example "(0, 0)" "(0, 0)"] sv 3
  have 4: "calculate_wait_time (0, 0) (session_example\<lparr>wait_time_seconds := Some 30\<rparr>)
       = Inr (session_example\<lparr>wait_time_seconds := Some 30\<rparr>)"
    by blast
  from calculate_wait_time_effect [of "session_example\<lparr>created_at := None\<rparr>" "(0, 0)"] n
  have 5: "calculate_wait_time (0, 0) (session_example\<lparr>created_at := None\<rparr>) = Inl TypeError"
    by blast
  from 1 2 3 4 5 show ?thesis by blast
qed

section \<open>A closed session\<close>

text \<open>
  The example session closed at 60 seconds holds a duration of 60 and no wait time.
  \<open>close_session\<close> at 90 seconds makes the duration 90, and \<open>calculate_wait_time\<close>
  stores a wait time of 30: two metric fields of a closed session change.
\<close>

theorem closed_session_mutated_counterexample:
  "status closed_session_example = ''closed''
   \<and> total_duration_seconds closed_session_example = Some 60
   \<and> total_duration_seconds (close_session 90000000 (0, 0) closed_session_example) = Some 90
   \<and> wait_time_seconds closed_session_example = None
   \<and> calculate_wait_time (0, 0) closed_session_example
       = Inr (closed_session_example\<lparr>wait_time_seconds := Some 30\<rparr>)"
  by (simp add: close_session_fields calculate_wait_time_def save_update_fields_def
      closed_session_example_def session_example_def)

text \<open>
  Claim C4, as the code has it. Each of \<open>close_session\<close>, \<open>calculate_wait_time\<close> and
  \<open>mark_abandoned\<close> preserves "\<open>closed_at\<close> is set if and only if the status is
  \<open>closed\<close>". On a closed session each of them leaves the status \<open>closed\<close>, leaves the
  same agent assigned and leaves \<open>response_time_seconds\<close>; \<open>mark_abandoned\<close> changes
  nothing; \<open>close_session\<close> leaves \<open>wait_time_seconds\<close>; \<open>calculate_wait_time\<close> leaves
  \<open>total_duration_seconds\<close>, \<open>closed_at\<close> and the agent. (What remains is not kept:
  \<open>close_session\<close> writes \<open>closed_at\<close> and \<open>total_duration_seconds\<close> again, and
  \<open>calculate_wait_time\<close> writes \<open>wait_time_seconds\<close> again.)
\<close>

theorem closed_session_operations:
  "(closed_at_iff_closed s \<longrightarrow>
      (\<forall>s'. apply_session_op ins s x = Inr s' \<longrightarrow> closed_at_iff_closed s'))
   \<and> (status s = ''closed'' \<longrightarrow>
        (\<forall>s'. apply_session_op ins s x = Inr s' \<longrightarrow>
           status s' = ''closed''
           \<and> map_option user_id (assigned_agent s') = map_option user_id (assigned_agent s)
           \<and> response_time_seconds s' = response_time_seconds s)
        \<and> mark_abandoned ins s = s
        \<and> wait_time_seconds (close_session now ins s) = wait_time_seconds s
        \<and> (\<forall>s'. calculate_wait_time ins s = Inr s' \<longrightarrow>
             total_duration_seconds s' = total_duration_seconds s
             \<and> closed_at s' = closed_at s
             \<and> assigned_agent s' = assigned_agent s))"
proof -
  have 1: "closed_at_iff_closed s \<longrightarrow>
      (\<forall>s'. apply_session_op ins s x = Inr s' \<longrightarrow> closed_at_iff_closed s')"
    using closed_at_iff_closed_preserved by blast
  have 2: "status s = ''closed'' \<longrightarrow>
        (\<forall>s'. apply_session_op ins s x = Inr s' \<longrightarrow>
           status s' = ''closed''
           \<and> map_option user_id (assigned_agent s') = map_option user_id (assigned_agent s)
           \<and> response_time_seconds s' = response_time_seconds s)"
    using closed_session_kept by blast
  have 3: "status s = ''closed'' \<longrightarrow> mark_abandoned ins s = s"
    by (simp add: mark_abandoned_def)
  have 4: "wait_time_seconds (close_session now ins s) = wait_time_seconds s"
    by (simp add: close_session_fields)
  have 5: "\<forall>s'. calculate_wait_time ins s = Inr s' \<longrightarrow>
             total_duration_seconds s' = total_duration_seconds s
             \<and> closed_at s' = closed_at s
             \<and> assigned_agent s' = assigned_agent s"
    using calculate_wait_time_keeps by blast
  from 1 2 3 4 5 show ?thesis by blast
qed

theorem closed_session_operations_witness:
  "closed_at_iff_closed closed_session_example
   \<and> closed_at_iff_closed (close_session 90000000 (0, 0) closed_session_example)
   \<and> status (close_session 90000000 (0, 0) closed_session_example) = ''closed''
   \<and> map_option user_id (assigned_agent (close_session 90000000 (0, 0) closed_session_example))
       = Some ''a1''
   \<and> mark_abandoned (0, 0) closed_session_example = closed_session_example
   \<and> wait_time_seconds (close_session 90000000 (0, 0) closed_session_example) = None"
proof -
  have i: "closed_at_iff_closed closed_session_example"
    and c: "status closed_session_example = ''closed''"
    by (simp_all add: closed_at_iff_closed_def closed_session_example_def)
  have a: "apply_session_op (0, 0) closed_session_example (Close 90000000)
      = Inr (close_session 90000000 (0, 0) closed_session_example)"
    by simp
  have u: "map_option user_id (assigned_agent closed_session_example) = Some ''a1''"
    and w: "wait_time_seconds closed_session_example = None"
    by (simp_all add: closed_session_example_def session_example_def agent_example_def)
  from closed_session_operations
    [of closed_session_example "(0, 0)" "Close 90000000" 90000000] i c a u w
  show ?thesis by simp
qed

section \<open>Resume tokens\<close>

text \<open>
  Claim C9. \<open>generate_resume_token\<close> returns the token it stores and sets
  \<open>resume_token_expires_at\<close> to exactly 24 hours (\<open>24 * 3600 * 10^6\<close> microseconds)
  after the time of generation; on a session of the table it changes no other field (on
  a session never written, its save sets \<open>created_at\<close> and \<open>updated_at\<close>).
  \<open>is_resume_token_valid\<close> is true exactly when both fields are set and the current time
  is strictly before \<open>resume_token_expires_at\<close>, where the token is set as the code
  reads it (\<open>not self.resume_token\<close>): neither null nor the empty string. It is false
  whenever either field is null. For a non-empty token just generated it is true exactly
  until 24 hours have passed.
\<close>

theorem resume_token_expiry:
  "fst (generate_resume_token token now ins s) = token
   \<and> resume_token (snd (generate_resume_token token now ins s)) = Some token
   \<and> resume_token_expires_at (snd (generate_resume_token token now ins s))
       = Some (now + 24 * 3600 * 1000000)
   \<and> snd (generate_resume_token token now ins s)
       = (if state_adding s
          then s\<lparr>resume_token := Some token,
                 resume_token_expires_at := Some (now + 24 * 3600 * 1000000),
                 created_at := Some (fst ins), updated_at := Some (snd ins),
                 state_adding := False\<rparr>
          else s\<lparr>resume_token := Some token,
                 resume_token_expires_at := Some (now + 24 * 3600 * 1000000)\<rparr>)
   \<and> is_resume_token_valid t s
       = (\<exists>tok e. resume_token s = Some tok \<and> tok \<noteq> []
            \<and> resume_token_expires_at s = Some e \<and> t < e)
   \<and> (resume_token s = None \<or> resume_token_expires_at s = None
        \<longrightarrow> \<not> is_resume_token_valid t s)
   \<and> (token \<noteq> [] \<longrightarrow>
        is_resume_token_valid t (snd (generate_resume_token token now ins s))
          = (t < now + 24 * 3600 * 1000000))"
  by (auto simp add: generate_resume_token_def is_resume_token_valid_def timedelta_hours_def
      save_update_fields_def split: option.splits)

theorem resume_token_expiry_witness:
  "\<not> is_resume_token_valid 0 session_example
   \<and> is_resume_token_valid 86399999999
        (snd (generate_resume_token ''tok'' 0 (0, 0) session_example))
   \<and> \<not> is_resume_token_valid 86400000000
        (snd (generate_resume_token ''tok'' 0 (0, 0) session_example))"
proof -
  have n: "resume_token session_example = None"
    by (simp add: session_example_def)
  have t: "''tok'' \<noteq> []" by simp
  from resume_token_expiry [of "''tok''" 0 "(0, 0)" session_example 0] n
  have 1: "\<not> is_resume_token_valid 0 session_example" by blast
  from resume_token_expiry [of "''tok''" 0 "(0, 0)" session_example 86399999999] t
  have "is_resume_token_valid 86399999999
        (snd (generate_resume_token ''tok'' 0 (0, 0) session_example))
      = (86399999999 < (0::int) + 24 * 3600 * 1000000)"
    by blast
  then have 2: "is_resume_token_valid 86399999999
        (snd (generate_resume_token ''tok'' 0 (0, 0) session_example))"
    by simp
  from resume_token_expiry [of "''tok''" 0 "(0, 0)" session_example 86400000000] t
  have "is_resume_token_valid 86400000000
        (snd (generate_resume_token ''tok'' 0 (0, 0) session_example))
      = (86400000000 < (0::int) + 24 * 3600 * 1000000)"
    by blast
  then have 3: "\<not> is_resume_token_valid 86400000000
        (snd (generate_resume_token ''tok'' 0 (0, 0) session_example))"
    by simp
  from 1 2 3 show ?thesis by blast
qed

section \<open>The order of the queue\<close>

text \<open>
  Claim C8. The ordering of the queue keeps the entries and puts first an entry of
  maximal priority that, among the entries of that priority, entered the queue earliest.
  An entry of higher priority stands before every entry of lower priority, whatever
  their entry times: so an urgent entry comes before a normal entry that entered earlier,
  for any numbers stored as their priorities with the urgent one higher (the source does
  not fix the numbers).
\<close>

theorem Meta_ordering_priority_then_time:
  "set (Meta_ordering es) = set es
   \<and> (es \<noteq> [] \<longrightarrow>
        hd (Meta_ordering es) \<in> set es
        \<and> (\<forall>e \<in> set es.
              queue_priority e \<le> queue_priority (hd (Meta_ordering es))
              \<and> (queue_priority e = queue_priority (hd (Meta_ordering es)) \<longrightarrow>
                   entered_queue_at (hd (Meta_ordering es)) \<le> entered_queue_at e)))
   \<and> (\<forall>u (n::ChatQueue). u \<in> set es \<and> queue_priority n < queue_priority u \<longrightarrow>
         (\<exists>pre post. Meta_ordering es = pre @ u # post \<and> n \<notin> set pre))"
proof -
  let ?q = "Meta_ordering es"
  have s: "set ?q = set es" by (rule Meta_ordering_set)
  have h: "es \<noteq> [] \<longrightarrow> hd ?q \<in> set es"
  proof
    assume "es \<noteq> []"
    with s have "?q \<noteq> []" by auto
    then have "hd ?q \<in> set ?q" by simp
    with s show "hd ?q \<in> set es" by simp
  qed
  have m: "\<forall>e \<in> set es.
              queue_priority e \<le> queue_priority (hd ?q)
              \<and> (queue_priority e = queue_priority (hd ?q) \<longrightarrow>
                   entered_queue_at (hd ?q) \<le> entered_queue_at e)"
  proof
    fix e assume "e \<in> set es"
    with s have "e \<in> set ?q" by simp
    with Meta_ordering_sorted have "ordering_key (hd ?q) \<le> ordering_key e"
      by (rule sorted_key_hd_least)
    then show "queue_priority e \<le> queue_priority (hd ?q)
              \<and> (queue_priority e = queue_priority (hd ?q) \<longrightarrow>
                   entered_queue_at (hd ?q) \<le> entered_queue_at e)"
      by (auto simp add: ordering_key_le)
  qed
  have b: "\<forall>u (n::ChatQueue). u \<in> set es \<and> queue_priority n < queue_priority u \<longrightarrow>
         (\<exists>pre post. ?q = pre @ u # post \<and> n \<notin> set pre)"
  proof (intro allI impI)
    fix u and n :: ChatQueue assume a: "u \<in> set es \<and> queue_priority n < queue_priority u"
    with s have in_q: "u \<in> set ?q" by simp
    from a have lt: "ordering_key u < ordering_key n"
      by (simp add: ordering_key_def)
    from Meta_ordering_sorted in_q lt
    show "\<exists>pre post. ?q = pre @ u # post \<and> n \<notin> set pre"
      by (rule sorted_key_first_occurrence)
  qed
  from s h m b show ?thesis by blast
qed

theorem Meta_ordering_priority_then_time_witness:
  "Meta_ordering [normal_entry, urgent_entry] = [urgent_entry, normal_entry]
   \<and> entered_queue_at normal_entry < entered_queue_at urgent_entry
   \<and> queue_priority normal_entry \<le> queue_priority (hd (Meta_ordering [normal_entry, urgent_entry]))
   \<and> queue_priority urgent_entry \<le> queue_priority (hd (Meta_ordering [normal_entry, urgent_entry]))"
proof -
  have ne: "[normal_entry, urgent_entry] \<noteq> []" by simp
  have o: "Meta_ordering [normal_entry, urgent_entry] = [urgent_entry, normal_entry]"
    by (simp add: Meta_ordering_def ordering_key_def normal_entry_def urgent_entry_def)
  have t: "entered_queue_at normal_entry < entered_queue_at urgent_entry"
    by (simp add: normal_entry_def urgent_entry_def)
  from Meta_ordering_priority_then_time [of "[normal_entry, urgent_entry]"] ne
  have "\<forall>e \<in> set [normal_entry, urgent_entry].
      queue_priority e \<le> queue_priority (hd (Meta_ordering [normal_entry, urgent_entry]))"
    by blast
  then have "queue_priority normal_entry \<le> queue_priority (hd (Meta_ordering [normal_entry, urgent_entry]))"
    and "queue_priority urgent_entry \<le> queue_priority (hd (Meta_ordering [normal_entry, urgent_entry]))"
    by simp_all
  with o t show ?thesis by blast
qed

end
